theory Spec2Isabelle
  imports Main "HOL-Library.Sublist"
begin

section \<open>Log hooks for Logrus: the data model\<close>

text \<open>
  The package \<^verbatim>\<open>log_hooks\<close> (file \<^verbatim>\<open>log_hooks.go\<close>) registers three hooks with a
  Logrus logger: a console mirror (\<^verbatim>\<open>StderrHook\<close>) and two mail sinks (\<^verbatim>\<open>MailHook\<close>,
  \<^verbatim>\<open>MailAuthHook\<close>), the mail sinks throttled by the process-wide store \<^verbatim>\<open>errStore\<close>.

  A Go \<^verbatim>\<open>error\<close> is modelled by its message, \<^verbatim>\<open>nil\<close> by \<open>None\<close>. A \<^verbatim>\<open>time.Time\<close> is a
  number of nanoseconds on the clock that \<^verbatim>\<open>time.Now\<close> reads, a \<^verbatim>\<open>time.Duration\<close> a number
  of nanoseconds; both are unbounded integers (the two windows of the code are constants
  far from the range of \<^verbatim>\<open>int64\<close>).
\<close>

type_synonym error = string
type_synonym time = int
type_synonym duration = int

definition Second :: duration where
  "Second = 1000000000"

definition Minute :: duration where
  "Minute = 60 * Second"

definition Add :: "time \<Rightarrow> duration \<Rightarrow> time" where
  "Add t d = t + d"

definition After :: "time \<Rightarrow> time \<Rightarrow> bool" where
  "After t u = (u < t)"

text \<open>The seven severities of Logrus, in the order of its constants (panic is 0).\<close>

datatype Level = PanicLevel | FatalLevel | ErrorLevel | WarnLevel | InfoLevel | DebugLevel | TraceLevel

text \<open>\<^verbatim>\<open>Level.String\<close> of Logrus: the level's name; the warn level is named "warning".\<close>

fun Level_String :: "Level \<Rightarrow> string" where
  "Level_String TraceLevel = ''trace''"
| "Level_String DebugLevel = ''debug''"
| "Level_String InfoLevel = ''info''"
| "Level_String WarnLevel = ''warning''"
| "Level_String ErrorLevel = ''error''"
| "Level_String FatalLevel = ''fatal''"
| "Level_String PanicLevel = ''panic''"

text \<open>
  A value of a structured field (\<^verbatim>\<open>interface{}\<close>): the kinds the examples need, among them
  one that \<^verbatim>\<open>encoding/json\<close> cannot render. \<^verbatim>\<open>entry.Data\<close> is a Go map; it is listed
  here by its entries in key order.
\<close>

datatype field_value = StringValue string | IntValue int | FloatNaN | OtherValue nat

type_synonym Fields = "(string \<times> field_value) list"

record Entry =
  Data :: Fields
  Time :: time
  Level :: Level
  Message :: string

record mailErrStore =
  errToTime :: "string \<rightharpoonup> time"
  generalErr :: string

record MailHook =
  appName :: string
  host :: string
  port :: int
  sender :: string
  recipient :: string

record MailAuthHook =
  appName :: string
  host :: string
  port :: int
  sender :: string
  recipient :: string
  username :: string
  password :: string

record TextFormatter =
  FullTimestamp :: bool

record StderrHook =
  textFormater :: TextFormatter

datatype Hook = StderrHookH StderrHook | MailHookH MailHook | MailAuthHookH MailAuthHook

datatype Writer = Stdout | Stderr | OtherWriter nat

datatype Formatter = JSONFormatter | TextFormatterF TextFormatter | OtherFormatter nat

text \<open>
  The fields of \<^verbatim>\<open>logrus.Logger\<close> that the setup touches. \<^verbatim>\<open>Hooks\<close> is Logrus's
  \<^verbatim>\<open>LevelHooks\<close>, a map from a level to the hooks registered for it (no entry: no hook).
\<close>

type_synonym LevelHooks = "Level \<Rightarrow> Hook list"

record Logger =
  Out :: Writer
  Hooks :: LevelHooks
  Formatter :: Formatter
  Level :: Level

subsection \<open>The world around the package\<close>

text \<open>
  Every call that leaves the process is one \<open>net_call\<close>; the calls issued so far are kept,
  oldest first, in the world's \<open>wire\<close>.
\<close>

datatype Auth = PlainAuth string string string string

datatype net_call =
    TcpDial string duration
  | ConnClose
  | SmtpDial string
  | SmtpMail string
  | SmtpRcpt string
  | SmtpData
  | DataWrite string
  | DataClose
  | SmtpClose
  | SendMail string Auth string "string list" string

text \<open>
  What the package cannot decide itself is a parameter of the model: the clock (the value
  of the n-th reading of \<^verbatim>\<open>time.Now\<close>), the answer of the network to each call (given the
  calls before it), the outcome of a write to the error stream (bytes accepted, error), and
  the library functions whose code is not part of the package: \<^verbatim>\<open>net.SplitHostPort\<close>,
  \<^verbatim>\<open>strconv.Atoi\<close>, \<^verbatim>\<open>logrus.ParseLevel\<close>, \<^verbatim>\<open>mail.ParseAddress\<close> (only its error is
  used), \<^verbatim>\<open>json.MarshalIndent\<close> (with its prefix and indent), \<^verbatim>\<open>Time.Format\<close> (with its
  layout), \<^verbatim>\<open>debug.Stack\<close>, \<^verbatim>\<open>TextFormatter.Format\<close> and the rendering by \<^verbatim>\<open>fmt\<close> of a
  format string that has no operands.
\<close>

record env =
  clock :: "nat \<Rightarrow> time"
  respond :: "net_call list \<Rightarrow> net_call \<Rightarrow> error option"
  stderr_write :: "string \<Rightarrow> string \<Rightarrow> nat \<times> error option"
  SplitHostPort :: "string \<Rightarrow> error + string \<times> string"
  Atoi :: "string \<Rightarrow> error + int"
  ParseLevel :: "string \<Rightarrow> error + Level"
  ParseAddress :: "string \<Rightarrow> error option"
  MarshalIndent :: "Fields \<Rightarrow> string \<Rightarrow> string \<Rightarrow> error + string"
  Time_Format :: "time \<Rightarrow> string \<Rightarrow> string"
  debug_Stack :: string
  TextFormatter_Format :: "TextFormatter \<Rightarrow> Entry \<Rightarrow> error + string"
  fmt_Sprintf :: "string \<Rightarrow> string"

text \<open>
  The mutable state: the global \<^verbatim>\<open>errStore\<close> (shared by every hook), the number of
  clock readings taken, the network calls issued and the bytes on the error stream.
\<close>

record world =
  errStore :: mailErrStore
  ticks :: nat
  wire :: "net_call list"
  stderr :: string

definition time_Now :: "env \<Rightarrow> world \<Rightarrow> time \<times> world" where
  "time_Now env w = (clock env (ticks w), w\<lparr>ticks := Suc (ticks w)\<rparr>)"

definition net :: "env \<Rightarrow> net_call \<Rightarrow> world \<Rightarrow> error option \<times> world" where
  "net env c w = (respond env (wire w) c, w\<lparr>wire := wire w @ [c]\<rparr>)"

text \<open>\<^verbatim>\<open>strconv.Itoa\<close>: the decimal digits of an integer, with a minus sign when negative.\<close>

definition digit :: "nat \<Rightarrow> char" where
  "digit d = (if d = 0 then CHR ''0'' else if d = 1 then CHR ''1'' else if d = 2 then CHR ''2''
     else if d = 3 then CHR ''3'' else if d = 4 then CHR ''4'' else if d = 5 then CHR ''5''
     else if d = 6 then CHR ''6'' else if d = 7 then CHR ''7'' else if d = 8 then CHR ''8''
     else CHR ''9'')"

fun digits :: "nat \<Rightarrow> string" where
  "digits n = (if n < 10 then [digit n] else digits (n div 10) @ [digit (n mod 10)])"

definition Itoa :: "int \<Rightarrow> string" where
  "Itoa i = (if i < 0 then CHR ''-'' # digits (nat (- i)) else digits (nat i))"

section \<open>The suppression store\<close>

text \<open>\<^verbatim>\<open>var errStore = &mailErrStore{errToTime: make(map[string]time.Time), generalErr: "general"}\<close>\<close>

definition errStore_init :: mailErrStore where
  "errStore_init = \<lparr>errToTime = Map.empty, generalErr = ''general''\<rparr>"

definition saveErrorTime :: "env \<Rightarrow> string \<Rightarrow> world \<Rightarrow> world" where
  "saveErrorTime env error w =
     (let (now, w1) = time_Now env w
      in w1\<lparr>errStore := (errStore w1)\<lparr>errToTime := (errToTime (errStore w1))(error \<mapsto> now)\<rparr>\<rparr>)"

definition markErrAsSent :: "env \<Rightarrow> Entry \<Rightarrow> world \<Rightarrow> world" where
  "markErrAsSent env entry w =
     (let w1 = saveErrorTime env (generalErr (errStore w)) w
      in saveErrorTime env (Message entry) w1)"

text \<open>The clock is read only when the key has an entry, as in the source.\<close>

definition checkErrorTime :: "env \<Rightarrow> string \<Rightarrow> duration \<Rightarrow> world \<Rightarrow> bool \<times> world" where
  "checkErrorTime env error duration w =
     (case errToTime (errStore w) error of
        Some errTime \<Rightarrow>
          (let (now, w1) = time_Now env w
           in if After (Add errTime duration) now then (False, w1) else (True, w1))
      | None \<Rightarrow> (True, w))"

definition canSendMail :: "env \<Rightarrow> Entry \<Rightarrow> world \<Rightarrow> bool \<times> world" where
  "canSendMail env entry w =
     (let (ok1, w1) = checkErrorTime env (generalErr (errStore w)) Minute w
      in if \<not> ok1 then (False, w1)
         else (let (ok2, w2) = checkErrorTime env (Message entry) (10 * Minute) w1
               in if \<not> ok2 then (False, w2) else (True, w2)))"

section \<open>Composing the message\<close>

definition createMessage_subject :: "Entry \<Rightarrow> string \<Rightarrow> string" where
  "createMessage_subject entry appname = appname @ '' - '' @ Level_String (Entry.Level entry)"

text \<open>\<^verbatim>\<open>data, _ := json.MarshalIndent(...)\<close>: the error is dropped, and the bytes are nil then.\<close>

definition createMessage_data :: "env \<Rightarrow> Entry \<Rightarrow> string" where
  "createMessage_data env entry =
     (case MarshalIndent env (Data entry) [] [CHR 0x09] of Inr data \<Rightarrow> data | Inl e \<Rightarrow> [])"

definition createMessage_body :: "env \<Rightarrow> Entry \<Rightarrow> string" where
  "createMessage_body env entry =
     ''TIME: '' @ Time_Format env (Time entry) ''2006-01-02 15:04:05-0700'' @ ''\<newline>'' @
     ''MESSAGE: '' @ Message entry @ ''\<newline>\<newline>'' @
     ''DATA: '' @ createMessage_data env entry @ ''\<newline>\<newline>'' @
     ''STACKTRACE: \<newline>'' @ debug_Stack env"

definition createMessage :: "env \<Rightarrow> Entry \<Rightarrow> string \<Rightarrow> string" where
  "createMessage env entry appname =
     ''Subject: '' @ createMessage_subject entry appname @ [CHR 0x0D, CHR 0x0A, CHR 0x0D, CHR 0x0A] @
     createMessage_body env entry"

section \<open>The hooks\<close>

subsection \<open>Construction\<close>

text \<open>
  \<^verbatim>\<open>checkMailHookParams\<close>: dial the server with a timeout of three seconds, then parse
  the two addresses; the connection is closed when the function returns (deferred).
\<close>

definition checkMailHookParams ::
  "env \<Rightarrow> string \<Rightarrow> int \<Rightarrow> string \<Rightarrow> string \<Rightarrow> world \<Rightarrow> error option \<times> world" where
  "checkMailHookParams env hst prt sndr rcpt w =
     (let (err, w1) = net env (TcpDial (hst @ '':'' @ Itoa prt) (3 * Second)) w
      in case err of
           Some e \<Rightarrow> (Some e, w1)
         | None \<Rightarrow>
             (let res = (case ParseAddress env sndr of
                           Some e \<Rightarrow> Some e
                         | None \<Rightarrow> (case ParseAddress env rcpt of Some e \<Rightarrow> Some e | None \<Rightarrow> None));
                  (cerr, w2) = net env ConnClose w1
              in (res, w2)))"

definition NewMailHook ::
  "env \<Rightarrow> string \<Rightarrow> string \<Rightarrow> int \<Rightarrow> string \<Rightarrow> string \<Rightarrow> world \<Rightarrow> (error + MailHook) \<times> world" where
  "NewMailHook env appname hst prt sndr rcpt w =
     (let (err, w1) = checkMailHookParams env hst prt sndr rcpt w
      in case err of
           Some e \<Rightarrow> (Inl e, w1)
         | None \<Rightarrow>
             (Inr \<lparr>MailHook.appName = appname, MailHook.host = hst, MailHook.port = prt,
                   MailHook.sender = sndr, MailHook.recipient = rcpt\<rparr>, w1))"

text \<open>\<^verbatim>\<open>new(logrus.TextFormatter)\<close> is the zero value of the formatter.\<close>

definition NewStderrHook :: "error + StderrHook" where
  "NewStderrHook = Inr \<lparr>textFormater = \<lparr>FullTimestamp = False\<rparr>\<rparr>"

subsection \<open>Levels\<close>

definition MailAuthHook_Levels :: "MailAuthHook \<Rightarrow> Level list" where
  "MailAuthHook_Levels hook = [WarnLevel, PanicLevel, FatalLevel, ErrorLevel]"

definition MailHook_Levels :: "MailHook \<Rightarrow> Level list" where
  "MailHook_Levels hook = [WarnLevel, PanicLevel, FatalLevel, ErrorLevel]"

definition StderrHook_Levels :: "StderrHook \<Rightarrow> Level list" where
  "StderrHook_Levels hook = [WarnLevel, PanicLevel, FatalLevel, ErrorLevel]"

subsection \<open>Fire\<close>

text \<open>
  \<^verbatim>\<open>MailHook.Fire\<close>, from the inside out. After \<^verbatim>\<open>client.Data()\<close> has succeeded the
  closing of the data writer is deferred; the entry is then marked as sent, the message
  composed and written.
\<close>

definition MailHook_Fire_data :: "env \<Rightarrow> MailHook \<Rightarrow> Entry \<Rightarrow> world \<Rightarrow> error option \<times> world" where
  "MailHook_Fire_data env hook entry w =
     (let w1 = markErrAsSent env entry w;
          message = createMessage env entry (MailHook.appName hook);
          (err, w2) = net env (DataWrite message) w1;
          (cerr, w3) = net env DataClose w2
      in (err, w3))"

text \<open>
  What runs once the dial has succeeded, up to the deferred \<^verbatim>\<open>client.Close()\<close>: the
  question to the store, then the envelope commands, each returning its error at once.
\<close>

definition MailHook_Fire_client :: "env \<Rightarrow> MailHook \<Rightarrow> Entry \<Rightarrow> world \<Rightarrow> error option \<times> world" where
  "MailHook_Fire_client env hook entry w =
     (let (ok, w1) = canSendMail env entry w
      in if \<not> ok then (None, w1)
         else (let (err, w2) = net env (SmtpMail (MailHook.sender hook)) w1
               in case err of
                    Some e \<Rightarrow> (Some e, w2)
                  | None \<Rightarrow>
                      (let (err, w3) = net env (SmtpRcpt (MailHook.recipient hook)) w2
                       in case err of
                            Some e \<Rightarrow> (Some e, w3)
                          | None \<Rightarrow>
                              (let (err, w4) = net env SmtpData w3
                               in case err of
                                    Some e \<Rightarrow> (Some e, w4)
                                  | None \<Rightarrow> MailHook_Fire_data env hook entry w4))))"

definition MailHook_Fire :: "env \<Rightarrow> MailHook \<Rightarrow> Entry \<Rightarrow> world \<Rightarrow> error option \<times> world" where
  "MailHook_Fire env hook entry w =
     (let (err, w1) = net env (SmtpDial (MailHook.host hook @ '':'' @ Itoa (MailHook.port hook))) w
      in case err of
           Some e \<Rightarrow> (Some e, w1)
         | None \<Rightarrow>
             (let (res, w2) = MailHook_Fire_client env hook entry w1;
                  (cerr, w3) = net env SmtpClose w2
              in (res, w3)))"

text \<open>
  \<^verbatim>\<open>MailAuthHook.Fire\<close>: the store is asked first; the message is composed and the entry
  marked before the one call \<^verbatim>\<open>smtp.SendMail\<close> that does the whole transaction.
\<close>

definition MailAuthHook_Fire :: "env \<Rightarrow> MailAuthHook \<Rightarrow> Entry \<Rightarrow> world \<Rightarrow> error option \<times> world" where
  "MailAuthHook_Fire env hook entry w =
     (let (ok, w1) = canSendMail env entry w
      in if \<not> ok then (None, w1)
         else (let auth = PlainAuth [] (username hook) (password hook) (MailAuthHook.host hook);
                   message = createMessage env entry (MailAuthHook.appName hook);
                   w2 = markErrAsSent env entry w1
               in net env (SendMail (MailAuthHook.host hook @ '':'' @ Itoa (MailAuthHook.port hook))
                             auth (MailAuthHook.sender hook) [MailAuthHook.recipient hook] message) w2))"

text \<open>
  \<^verbatim>\<open>StderrHook.Fire\<close> returns the error of the formatter (its named result); the line and
  the stack are written only when there is none, and the outcome of the write is dropped.
\<close>

definition StderrHook_Fire :: "env \<Rightarrow> StderrHook \<Rightarrow> Entry \<Rightarrow> world \<Rightarrow> error option \<times> world" where
  "StderrHook_Fire env hook entry w =
     (case TextFormatter_Format env (textFormater hook) entry of
        Inl e \<Rightarrow> (Some e, w)
      | Inr line \<Rightarrow>
          (let out = fmt_Sprintf env (line @ debug_Stack env);
               (n, werr) = stderr_write env (stderr w) out
           in (None, w\<lparr>stderr := stderr w @ take n out\<rparr>)))"

subsection \<open>The logger's registry\<close>

text \<open>
  The host framework's side of a hook, as Logrus has it: \<^verbatim>\<open>LevelHooks.Add\<close> appends the
  hook under each level of its \<^verbatim>\<open>Levels()\<close>, and \<^verbatim>\<open>LevelHooks.Fire\<close> calls the hooks
  registered under the entry's level in turn, stopping at the first error.
\<close>

fun Hook_Levels :: "Hook \<Rightarrow> Level list" where
  "Hook_Levels (StderrHookH h) = StderrHook_Levels h"
| "Hook_Levels (MailHookH h) = MailHook_Levels h"
| "Hook_Levels (MailAuthHookH h) = MailAuthHook_Levels h"

fun Hook_Fire :: "env \<Rightarrow> Hook \<Rightarrow> Entry \<Rightarrow> world \<Rightarrow> error option \<times> world" where
  "Hook_Fire env (StderrHookH h) entry w = StderrHook_Fire env h entry w"
| "Hook_Fire env (MailHookH h) entry w = MailHook_Fire env h entry w"
| "Hook_Fire env (MailAuthHookH h) entry w = MailAuthHook_Fire env h entry w"

definition LevelHooks_Add :: "LevelHooks \<Rightarrow> Hook \<Rightarrow> LevelHooks" where
  "LevelHooks_Add hooks hook =
     foldl (\<lambda>hs level. hs(level := hs level @ [hook])) hooks (Hook_Levels hook)"

fun fire_each :: "env \<Rightarrow> Hook list \<Rightarrow> Entry \<Rightarrow> world \<Rightarrow> error option \<times> world" where
  "fire_each env [] entry w = (None, w)"
| "fire_each env (hook # hooks) entry w =
     (case Hook_Fire env hook entry w of
        (Some e, w1) \<Rightarrow> (Some e, w1)
      | (None, w1) \<Rightarrow> fire_each env hooks entry w1)"

definition LevelHooks_Fire :: "env \<Rightarrow> LevelHooks \<Rightarrow> Level \<Rightarrow> Entry \<Rightarrow> world \<Rightarrow> error option \<times> world" where
  "LevelHooks_Fire env hooks level entry w = fire_each env (hooks level) entry w"

subsection \<open>Setup\<close>

text \<open>
  \<^verbatim>\<open>UsefulSetupLogrus\<close> mutates the logger it is given; the model returns the logger as
  the call leaves it, beside the error. The first statement sets the output to stdout.
\<close>

definition UsefulSetupLogrus_format :: "Logger \<Rightarrow> string \<Rightarrow> Logger" where
  "UsefulSetupLogrus_format logger format =
     (if format = ''json'' then logger\<lparr>Formatter := JSONFormatter\<rparr>
      else logger\<lparr>Formatter := TextFormatterF \<lparr>FullTimestamp = True\<rparr>\<rparr>)"

definition UsefulSetupLogrus_hooks ::
  "env \<Rightarrow> Logger \<Rightarrow> string \<Rightarrow> string \<Rightarrow> string \<Rightarrow> int \<Rightarrow> string \<Rightarrow> string \<Rightarrow> world
     \<Rightarrow> (error option \<times> Logger) \<times> world" where
  "UsefulSetupLogrus_hooks env logger format appname hst prt sndr rcpt w =
     (case NewStderrHook of
        Inl e \<Rightarrow> ((Some e, logger), w)
      | Inr stderrHook \<Rightarrow>
          (let log1 = logger\<lparr>Hooks := LevelHooks_Add (Hooks logger) (StderrHookH stderrHook)\<rparr>;
               (r, w1) = NewMailHook env appname hst prt sndr rcpt w
           in case r of
                Inl e \<Rightarrow> ((Some e, log1), w1)
              | Inr mailHook \<Rightarrow>
                  (let log2 = log1\<lparr>Hooks := LevelHooks_Add (Hooks log1) (MailHookH mailHook)\<rparr>
                   in ((None, UsefulSetupLogrus_format log2 format), w1))))"

definition UsefulSetupLogrus ::
  "env \<Rightarrow> Logger \<Rightarrow> string \<Rightarrow> string \<Rightarrow> string \<Rightarrow> string \<Rightarrow> string \<Rightarrow> string \<Rightarrow> world
     \<Rightarrow> (error option \<times> Logger) \<times> world" where
  "UsefulSetupLogrus env logger mailHostPort format level appname sndr rcpt w =
     (let log1 = logger\<lparr>Out := Stdout\<rparr>
      in case SplitHostPort env mailHostPort of
           Inl e \<Rightarrow> ((Some e, log1), w)
         | Inr (hst, strPort) \<Rightarrow>
             (case Atoi env strPort of
                Inl e \<Rightarrow> ((Some e, log1), w)
              | Inr prt \<Rightarrow>
                  (case ParseLevel env level of
                     Inl e \<Rightarrow> ((Some e, log1), w)
                   | Inr logLevel \<Rightarrow>
                       UsefulSetupLogrus_hooks env (log1\<lparr>Logger.Level := logLevel\<rparr>)
                         format appname hst prt sndr rcpt w)))"

section \<open>Notions used in the statements\<close>

text \<open>
  The store of \<open>w\<close> holds the stamp \<open>tg\<close> under the global key and the stamp \<open>tm\<close> under
  the message text of \<open>e\<close>.
\<close>

definition stamped :: "world \<Rightarrow> Entry \<Rightarrow> time \<Rightarrow> time \<Rightarrow> bool" where
  "stamped w e tg tm =
     (errToTime (errStore w) (generalErr (errStore w)) = Some tg \<and>
      errToTime (errStore w) (Message e) = Some tm)"

text \<open>
  The server accepts the dial of \<^verbatim>\<open>MailHook.Fire\<close> and its three envelope commands
  (\<^verbatim>\<open>MAIL\<close>, \<^verbatim>\<open>RCPT\<close>, \<^verbatim>\<open>DATA\<close>), issued from the world \<open>w\<close>.
\<close>

definition MailHook_accepted :: "env \<Rightarrow> MailHook \<Rightarrow> world \<Rightarrow> bool" where
  "MailHook_accepted env hook w =
     (let dial = SmtpDial (MailHook.host hook @ '':'' @ Itoa (MailHook.port hook));
          mail = SmtpMail (MailHook.sender hook);
          rcpt = SmtpRcpt (MailHook.recipient hook)
      in respond env (wire w) dial = None \<and>
         respond env (wire w @ [dial]) mail = None \<and>
         respond env (wire w @ [dial, mail]) rcpt = None \<and>
         respond env (wire w @ [dial, mail, rcpt]) SmtpData = None)"

text \<open>
  The three arguments that \<^verbatim>\<open>UsefulSetupLogrus\<close> parses before it sets the level: host,
  port and level, or \<open>None\<close> when one of the three parses fails.
\<close>

definition parsed_args :: "env \<Rightarrow> string \<Rightarrow> string \<Rightarrow> (string \<times> int \<times> Level) option" where
  "parsed_args env mailHostPort level =
     (case SplitHostPort env mailHostPort of
        Inl e \<Rightarrow> None
      | Inr (hst, strPort) \<Rightarrow>
          (case Atoi env strPort of
             Inl e \<Rightarrow> None
           | Inr prt \<Rightarrow>
               (case ParseLevel env level of
                  Inl e \<Rightarrow> None
                | Inr logLevel \<Rightarrow> Some (hst, prt, logLevel))))"

section \<open>Concrete inputs\<close>

text \<open>
  An environment for the examples below. Its library functions answer as Go's do on the
  strings the examples use, a table that is not meant beyond them; every network call
  succeeds, every write to the error stream is accepted whole, and the n-th reading of the
  clock is n seconds.
\<close>

definition example_json :: string where
  \<open>example_json = ''{'' @ [CHR 0x0A, CHR 0x09] @ ''"count": 3,'' @ [CHR 0x0A, CHR 0x09] @
     ''"user": "a"'' @ [CHR 0x0A] @ ''}''\<close>

definition example_fields :: Fields where
  "example_fields = [(''count'', IntValue 3), (''user'', StringValue ''a'')]"

definition example_env :: env where
  "example_env =
     \<lparr>clock = (\<lambda>n. int n * Second),
      respond = (\<lambda>calls c. None),
      stderr_write = (\<lambda>written s. (length s, None)),
      SplitHostPort = (\<lambda>s. if s = ''localhost:25'' then Inr (''localhost'', ''25'')
                              else Inl ''missing port in address''),
      Atoi = (\<lambda>s. if s = ''25'' then Inr 25 else Inl ''invalid syntax''),
      ParseLevel = (\<lambda>s. if s = ''debug'' then Inr DebugLevel else Inl ''not a valid logrus Level''),
      ParseAddress = (\<lambda>s. if s = ''alerts@example.org'' then None
                             else if s = ''ops@example.org'' then None
                             else Some ''mail: missing @ or angle-addr''),
      MarshalIndent = (\<lambda>d prefix indent. if FloatNaN \<in> snd ` set d
                                              then Inl ''json: unsupported value: NaN''
                                            else if d = example_fields then Inr example_json
                                            else Inr ''{}''),
      Time_Format = (\<lambda>t layout. ''1970-01-01 00:00:00+0000''),
      debug_Stack = ''goroutine 1 [running]:'',
      TextFormatter_Format = (\<lambda>f e. Inr (''level='' @ Level_String (Entry.Level e) @ '' msg='' @ Message e)),
      fmt_Sprintf = (\<lambda>s. s)\<rparr>"

text \<open>A server that refuses every recipient, and a network on which no dial succeeds.\<close>

definition refuse_rcpt :: "net_call list \<Rightarrow> net_call \<Rightarrow> error option" where
  "refuse_rcpt calls c = (case c of SmtpRcpt r \<Rightarrow> Some ''550 mailbox unavailable'' | _ \<Rightarrow> None)"

definition refuse_dial :: "net_call list \<Rightarrow> net_call \<Rightarrow> error option" where
  "refuse_dial calls c =
     (case c of SmtpDial a \<Rightarrow> Some ''connection refused''
              | TcpDial a d \<Rightarrow> Some ''connection refused''
              | _ \<Rightarrow> None)"

text \<open>The world at program start, and one in which an alert was sent at second 0.\<close>

definition world_init :: world where
  "world_init = \<lparr>errStore = errStore_init, ticks = 0, wire = [], stderr = []\<rparr>"

definition world_sent :: world where
  "world_sent =
     \<lparr>errStore = \<lparr>errToTime = [''general'' \<mapsto> 0, ''disk full'' \<mapsto> 0], generalErr = ''general''\<rparr>,
      ticks = 2, wire = [], stderr = []\<rparr>"

text \<open>\<^verbatim>\<open>logrus.New()\<close>: output to stderr, a text formatter, no hooks, level info.\<close>

definition logrus_New :: Logger where
  "logrus_New =
     \<lparr>Out = Stderr, Hooks = (\<lambda>level. []), Formatter = TextFormatterF \<lparr>FullTimestamp = False\<rparr>,
      Level = InfoLevel\<rparr>"

definition example_entry :: Entry where
  "example_entry = \<lparr>Data = example_fields, Time = 0, Entry.Level = ErrorLevel, Message = ''disk full''\<rparr>"

definition nan_entry :: Entry where
  "nan_entry = \<lparr>Data = [(''ratio'', FloatNaN)], Time = 0, Entry.Level = ErrorLevel, Message = ''disk full''\<rparr>"

definition example_hook :: MailHook where
  "example_hook =
     \<lparr>MailHook.appName = ''svc'', MailHook.host = ''localhost'', MailHook.port = 25,
      MailHook.sender = ''alerts@example.org'', MailHook.recipient = ''ops@example.org''\<rparr>"

definition example_auth_hook :: MailAuthHook where
  "example_auth_hook =
     \<lparr>appName = ''svc'', host = ''localhost'', port = 25, sender = ''alerts@example.org'',
      recipient = ''ops@example.org'', username = ''svc'', password = ''secret''\<rparr>"

section \<open>Basic facts\<close>

declare digits.simps [simp del]

lemma Itoa_25: "Itoa 25 = ''25''"
  by (simp add: Itoa_def digits.simps digit_def)

lemma ticks_net [simp]: "ticks (snd (net env c w)) = ticks w"
  and errStore_net [simp]: "errStore (snd (net env c w)) = errStore w"
  and wire_net [simp]: "wire (snd (net env c w)) = wire w @ [c]"
  and stderr_net [simp]: "stderr (snd (net env c w)) = stderr w"
  and fst_net [simp]: "fst (net env c w) = respond env (wire w) c"
  by (simp_all add: net_def)

lemma checkErrorTime_fst:
  "fst (checkErrorTime env key d w) =
     (case errToTime (errStore w) key of None \<Rightarrow> True | Some t \<Rightarrow> t + d \<le> clock env (ticks w))"
  by (auto simp: checkErrorTime_def time_Now_def After_def Add_def split: option.splits)

lemma checkErrorTime_snd:
  "snd (checkErrorTime env key d w) =
     (case errToTime (errStore w) key of None \<Rightarrow> w | Some t \<Rightarrow> w\<lparr>ticks := Suc (ticks w)\<rparr>)"
  by (auto simp: checkErrorTime_def time_Now_def split: option.splits)

lemma checkErrorTime_errStore [simp]: "errStore (snd (checkErrorTime env key d w)) = errStore w"
  and checkErrorTime_wire [simp]: "wire (snd (checkErrorTime env key d w)) = wire w"
  and checkErrorTime_stderr [simp]: "stderr (snd (checkErrorTime env key d w)) = stderr w"
  by (simp_all add: checkErrorTime_snd split: option.splits)

lemma canSendMail_fst:
  "fst (canSendMail env e w) =
     (fst (checkErrorTime env (generalErr (errStore w)) Minute w) \<and>
      fst (checkErrorTime env (Message e) (10 * Minute)
             (snd (checkErrorTime env (generalErr (errStore w)) Minute w))))"
  by (simp add: canSendMail_def split_def Let_def)

lemma canSendMail_errStore [simp]: "errStore (snd (canSendMail env e w)) = errStore w"
  and canSendMail_wire [simp]: "wire (snd (canSendMail env e w)) = wire w"
  and canSendMail_stderr [simp]: "stderr (snd (canSendMail env e w)) = stderr w"
  by (simp_all add: canSendMail_def split_def Let_def)

section \<open>The store's decision\<close>

text \<open>
  C3. \<^verbatim>\<open>checkErrorTime(key, duration)\<close> returns true iff the key has no entry, or its
  entry's timestamp plus the duration is not after the current time (the clock reading the
  call takes); \<^verbatim>\<open>canSendMail(entry)\<close> returns true iff \<^verbatim>\<open>checkErrorTime\<close> holds for the
  global key with a window of one minute and then for the entry's message text with a
  window of ten minutes. The store is left as it was; a minute is 60 * 10^9 nanoseconds and
  the global key of \<^verbatim>\<open>errStore\<close> is "general".
\<close>

theorem store_permits:
  "(fst (checkErrorTime env key d w) \<longleftrightarrow>
      (errToTime (errStore w) key = None \<or>
       (\<exists>t. errToTime (errStore w) key = Some t \<and> t + d \<le> clock env (ticks w))))
   \<and> (fst (canSendMail env e w) \<longleftrightarrow>
        (fst (checkErrorTime env (generalErr (errStore w)) Minute w) \<and>
         fst (checkErrorTime env (Message e) (10 * Minute)
                (snd (checkErrorTime env (generalErr (errStore w)) Minute w)))))
   \<and> errStore (snd (canSendMail env e w)) = errStore w
   \<and> Minute = 60 * 1000000000 \<and> generalErr errStore_init = ''general''"
proof -
  have a: "fst (checkErrorTime env key d w) \<longleftrightarrow>
      (errToTime (errStore w) key = None \<or>
       (\<exists>t. errToTime (errStore w) key = Some t \<and> t + d \<le> clock env (ticks w)))"
    by (simp add: checkErrorTime_fst split: option.splits)
  have c: "Minute = 60 * 1000000000" by (simp add: Minute_def Second_def)
  have d: "generalErr errStore_init = ''general''" by (simp add: errStore_init_def)
  from a canSendMail_fst [of env e w] c d show ?thesis by simp
qed

section \<open>Eligible severities\<close>

lemma LevelHooks_Add_other:
  "level \<notin> set (Hook_Levels hook) \<Longrightarrow> LevelHooks_Add hooks hook level = hooks level"
proof -
  have "level \<notin> set ls \<Longrightarrow> foldl (\<lambda>hs l. hs(l := hs l @ [hook])) hooks ls level = hooks level"
    for ls
    by (induction ls arbitrary: hooks) auto
  then show "level \<notin> set (Hook_Levels hook) \<Longrightarrow> ?thesis"
    by (simp add: LevelHooks_Add_def)
qed

lemma Hook_Levels_eq: "Hook_Levels hook = [WarnLevel, PanicLevel, FatalLevel, ErrorLevel]"
  by (cases hook) (simp_all add: StderrHook_Levels_def MailHook_Levels_def MailAuthHook_Levels_def)

text \<open>
  C5. For each of the three sinks the levels returned by \<^verbatim>\<open>Levels\<close> are exactly warn,
  error, fatal and panic. Hence info, debug and trace are no level of any hook, registering
  a hook puts nothing under these three levels, and a registry holding the three hooks
  fires none of them for an entry at info, debug or trace: the call returns nil and the
  world (network, error stream, store) is as before.
\<close>

theorem Levels_warn_and_above:
  "set (MailHook_Levels m) = {WarnLevel, ErrorLevel, FatalLevel, PanicLevel}
   \<and> set (MailAuthHook_Levels a) = {WarnLevel, ErrorLevel, FatalLevel, PanicLevel}
   \<and> set (StderrHook_Levels s) = {WarnLevel, ErrorLevel, FatalLevel, PanicLevel}
   \<and> InfoLevel \<notin> set (Hook_Levels hook) \<and> DebugLevel \<notin> set (Hook_Levels hook)
   \<and> TraceLevel \<notin> set (Hook_Levels hook)
   \<and> LevelHooks_Add hooks hook InfoLevel = hooks InfoLevel
   \<and> LevelHooks_Add hooks hook DebugLevel = hooks DebugLevel
   \<and> LevelHooks_Add hooks hook TraceLevel = hooks TraceLevel
   \<and> LevelHooks_Fire env (LevelHooks_Add (LevelHooks_Add (LevelHooks_Add (\<lambda>l. []) (StderrHookH s))
         (MailHookH m)) (MailAuthHookH a)) InfoLevel e w = (None, w)
   \<and> LevelHooks_Fire env (LevelHooks_Add (LevelHooks_Add (LevelHooks_Add (\<lambda>l. []) (StderrHookH s))
         (MailHookH m)) (MailAuthHookH a)) DebugLevel e w = (None, w)
   \<and> LevelHooks_Fire env (LevelHooks_Add (LevelHooks_Add (LevelHooks_Add (\<lambda>l. []) (StderrHookH s))
         (MailHookH m)) (MailAuthHookH a)) TraceLevel e w = (None, w)"
proof -
  have sets: "set (MailHook_Levels m) = {WarnLevel, ErrorLevel, FatalLevel, PanicLevel}"
    "set (MailAuthHook_Levels a) = {WarnLevel, ErrorLevel, FatalLevel, PanicLevel}"
    "set (StderrHook_Levels s) = {WarnLevel, ErrorLevel, FatalLevel, PanicLevel}"
    by (auto simp: StderrHook_Levels_def MailHook_Levels_def MailAuthHook_Levels_def)
  have out: "InfoLevel \<notin> set (Hook_Levels h)" "DebugLevel \<notin> set (Hook_Levels h)"
    "TraceLevel \<notin> set (Hook_Levels h)" for h
    by (simp_all add: Hook_Levels_eq)
  have fire: "LevelHooks_Fire env (LevelHooks_Add (LevelHooks_Add (LevelHooks_Add (\<lambda>l. []) h1) h2) h3)
      level e w = (None, w)"
    if "level = InfoLevel \<or> level = DebugLevel \<or> level = TraceLevel" for level h1 h2 h3
  proof -
    from that have "level \<notin> set (Hook_Levels h)" for h
      using out by auto
    then show ?thesis
      by (simp add: LevelHooks_Fire_def LevelHooks_Add_other)
  qed
  show ?thesis
    using sets out [of hook] fire by (simp add: LevelHooks_Add_other)
qed

section \<open>Constructing the mail hook\<close>

lemma checkMailHookParams_fst:
  "fst (checkMailHookParams env hst prt sndr rcpt w) =
     (case respond env (wire w) (TcpDial (hst @ '':'' @ Itoa prt) (3 * Second)) of
        Some e \<Rightarrow> Some e
      | None \<Rightarrow> (case ParseAddress env sndr of Some e \<Rightarrow> Some e | None \<Rightarrow> ParseAddress env rcpt))"
  by (simp add: checkMailHookParams_def net_def Let_def split_def split: option.splits)

lemma NewMailHook_fst:
  "fst (NewMailHook env appname hst prt sndr rcpt w) =
     (case fst (checkMailHookParams env hst prt sndr rcpt w) of
        Some e \<Rightarrow> Inl e
      | None \<Rightarrow> Inr \<lparr>MailHook.appName = appname, MailHook.host = hst, MailHook.port = prt,
                   MailHook.sender = sndr, MailHook.recipient = rcpt\<rparr>)"
  by (simp add: NewMailHook_def split_def Let_def split: option.splits)

text \<open>
  C7. \<^verbatim>\<open>NewMailHook\<close> returns an error (and no hook) iff the dial of host:port with the
  timeout of three seconds fails, or the sender does not parse as a mail address, or the
  recipient does not; when the three checks pass it returns the hook that carries exactly
  the given application name, host, port, sender and recipient.
\<close>

theorem NewMailHook_checks:
  "((\<exists>e. fst (NewMailHook env appname hst prt sndr rcpt w) = Inl e) \<longleftrightarrow>
      (respond env (wire w) (TcpDial (hst @ '':'' @ Itoa prt) (3 * Second)) \<noteq> None
       \<or> ParseAddress env sndr \<noteq> None \<or> ParseAddress env rcpt \<noteq> None))
   \<and> (respond env (wire w) (TcpDial (hst @ '':'' @ Itoa prt) (3 * Second)) = None
        \<and> ParseAddress env sndr = None \<and> ParseAddress env rcpt = None
      \<longrightarrow> fst (NewMailHook env appname hst prt sndr rcpt w) =
            Inr \<lparr>MailHook.appName = appname, MailHook.host = hst, MailHook.port = prt,
                 MailHook.sender = sndr, MailHook.recipient = rcpt\<rparr>)
   \<and> 3 * Second = 3000000000"
  by (auto simp: NewMailHook_fst checkMailHookParams_fst Second_def split: option.splits)

theorem NewMailHook_checks_witness:
  "respond example_env (wire world_init) (TcpDial ''localhost:25'' 3000000000) = None
   \<and> ParseAddress example_env ''alerts@example.org'' = None
   \<and> ParseAddress example_env ''ops@example.org'' = None
   \<and> fst (NewMailHook example_env ''svc'' ''localhost'' 25 ''alerts@example.org'' ''ops@example.org''
        world_init) = Inr example_hook
   \<and> (\<exists>e. fst (NewMailHook example_env ''svc'' ''localhost'' 25 ''not an address'' ''ops@example.org''
        world_init) = Inl e)"
  using NewMailHook_checks [of example_env "''svc''" "''localhost''" 25 "''alerts@example.org''"
      "''ops@example.org''" world_init]
    NewMailHook_checks [of example_env "''svc''" "''localhost''" 25 "''not an address''"
      "''ops@example.org''" world_init]
  by (simp add: example_env_def example_hook_def Itoa_25 Second_def)

section \<open>The console mirror\<close>

text \<open>The one error \<^verbatim>\<open>StderrHook.Fire\<close> can return is the formatter's; nothing is written then.\<close>

lemma StderrHook_Fire_format_error:
  "TextFormatter_Format env (textFormater hook) entry = Inl e \<Longrightarrow>
     StderrHook_Fire env hook entry w = (Some e, w)"
  by (simp add: StderrHook_Fire_def)

text \<open>
  C9. \<^verbatim>\<open>StderrHook.Fire\<close> returns nil whatever the write to the error stream does: for
  every outcome \<open>wr\<close> of the write (bytes accepted, error) the result is nil, and the stream
  holds what the write accepted of the line followed by the stack. The hypothesis is that
  the text formatter renders the entry, which Logrus's \<^verbatim>\<open>TextFormatter.Format\<close> does for
  every entry (it returns a nil error on every path).
\<close>

theorem StderrHook_Fire_nil:
  assumes "TextFormatter_Format env (textFormater hook) entry = Inr line"
  shows "fst (StderrHook_Fire (env\<lparr>stderr_write := wr\<rparr>) hook entry w) = None
    \<and> stderr (snd (StderrHook_Fire (env\<lparr>stderr_write := wr\<rparr>) hook entry w)) =
        stderr w @ take (fst (wr (stderr w) (fmt_Sprintf env (line @ debug_Stack env))))
                     (fmt_Sprintf env (line @ debug_Stack env))"
  using assms by (simp add: StderrHook_Fire_def Let_def split_def)

theorem StderrHook_Fire_nil_witness:
  "TextFormatter_Format example_env (textFormater \<lparr>textFormater = \<lparr>FullTimestamp = False\<rparr>\<rparr>)
       example_entry = Inr ''level=error msg=disk full''
   \<and> fst (StderrHook_Fire (example_env\<lparr>stderr_write := (\<lambda>written s. (0, Some ''broken pipe''))\<rparr>)
        \<lparr>textFormater = \<lparr>FullTimestamp = False\<rparr>\<rparr> example_entry world_init) = None"
proof -
  have f: "TextFormatter_Format example_env (textFormater \<lparr>textFormater = \<lparr>FullTimestamp = False\<rparr>\<rparr>)
       example_entry = Inr ''level=error msg=disk full''"
    by (simp add: example_env_def example_entry_def)
  from StderrHook_Fire_nil [OF f] f show ?thesis by simp
qed

section \<open>Marking and suppression\<close>

lemma saveErrorTime_errStore:
  "errStore (saveErrorTime env k w) =
     (errStore w)\<lparr>errToTime := (errToTime (errStore w))(k \<mapsto> clock env (ticks w))\<rparr>"
  and saveErrorTime_ticks [simp]: "ticks (saveErrorTime env k w) = Suc (ticks w)"
  and saveErrorTime_wire [simp]: "wire (saveErrorTime env k w) = wire w"
  and saveErrorTime_stderr [simp]: "stderr (saveErrorTime env k w) = stderr w"
  by (simp_all add: saveErrorTime_def time_Now_def)

lemma markErrAsSent_errToTime:
  "errToTime (errStore (markErrAsSent env e w)) =
     (errToTime (errStore w))(generalErr (errStore w) \<mapsto> clock env (ticks w),
                              Message e \<mapsto> clock env (Suc (ticks w)))"
  and markErrAsSent_generalErr [simp]:
    "generalErr (errStore (markErrAsSent env e w)) = generalErr (errStore w)"
  and markErrAsSent_ticks [simp]: "ticks (markErrAsSent env e w) = Suc (Suc (ticks w))"
  and markErrAsSent_wire [simp]: "wire (markErrAsSent env e w) = wire w"
  and markErrAsSent_stderr [simp]: "stderr (markErrAsSent env e w) = stderr w"
  by (simp_all add: markErrAsSent_def Let_def saveErrorTime_errStore)

lemma markErrAsSent_stamped:
  "\<exists>tg tm. stamped (markErrAsSent env e w) e tg tm"
  by (simp add: stamped_def markErrAsSent_errToTime)

lemma canSendMail_cong:
  "errStore w1 = errStore w2 \<Longrightarrow> ticks w1 = ticks w2 \<Longrightarrow>
     fst (canSendMail env e w1) = fst (canSendMail env e w2)"
  by (simp add: canSendMail_fst checkErrorTime_fst checkErrorTime_snd split: option.splits)

lemma stamped_general_window:
  assumes "stamped w e tg tm" "clock env (ticks w) < tg + Minute"
  shows "\<not> fst (canSendMail env e2 w)"
  using assms by (simp add: stamped_def canSendMail_fst checkErrorTime_fst)

lemma stamped_message_window:
  assumes "stamped w e tg tm" "Message e2 = Message e" "clock env (Suc (ticks w)) < tm + 10 * Minute"
  shows "\<not> fst (canSendMail env e2 w)"
  using assms by (simp add: stamped_def canSendMail_fst checkErrorTime_fst checkErrorTime_snd)

lemma MailAuthHook_Fire_suppressed:
  "\<not> fst (canSendMail env e w) \<Longrightarrow> MailAuthHook_Fire env a e w = (None, snd (canSendMail env e w))"
  by (simp add: MailAuthHook_Fire_def split_def)

lemma MailAuthHook_Fire_permitted:
  "fst (canSendMail env e w) \<Longrightarrow>
     MailAuthHook_Fire env a e w =
       net env (SendMail (MailAuthHook.host a @ '':'' @ Itoa (MailAuthHook.port a))
                  (PlainAuth [] (username a) (password a) (MailAuthHook.host a))
                  (MailAuthHook.sender a) [MailAuthHook.recipient a]
                  (createMessage env e (MailAuthHook.appName a)))
         (markErrAsSent env e (snd (canSendMail env e w)))"
  by (simp add: MailAuthHook_Fire_def split_def Let_def)

lemma stamped_cong: "errStore w1 = errStore w2 \<Longrightarrow> stamped w1 e tg tm = stamped w2 e tg tm"
  by (simp add: stamped_def)

lemma MailHook_Fire_client_suppressed:
  "\<not> fst (canSendMail env e w) \<Longrightarrow> MailHook_Fire_client env m e w = (None, snd (canSendMail env e w))"
  by (simp add: MailHook_Fire_client_def split_def)

lemma MailHook_Fire_suppressed_errStore:
  assumes "\<not> fst (canSendMail env e w)"
  shows "errStore (snd (MailHook_Fire env m e w)) = errStore w"
proof -
  let ?w1 = "snd (net env (SmtpDial (MailHook.host m @ '':'' @ Itoa (MailHook.port m))) w)"
  have "\<not> fst (canSendMail env e ?w1)"
    using assms canSendMail_cong [of ?w1 w env e] by simp
  then show ?thesis
    by (simp add: MailHook_Fire_def split_def Let_def MailHook_Fire_client_suppressed
        split: option.splits)
qed

lemma MailHook_Fire_data_errStore:
  "errStore (snd (MailHook_Fire_data env m e w)) = errStore (markErrAsSent env e w)"
  by (simp add: MailHook_Fire_data_def split_def Let_def)

lemma MailHook_Fire_accepted_errStore:
  assumes "fst (canSendMail env e w)" "MailHook_accepted env m w"
  shows "errStore (snd (MailHook_Fire env m e w)) =
           errStore (markErrAsSent env e
             (snd (canSendMail env e
                (snd (net env (SmtpDial (MailHook.host m @ '':'' @ Itoa (MailHook.port m))) w)))))"
proof -
  let ?d = "SmtpDial (MailHook.host m @ '':'' @ Itoa (MailHook.port m))"
  let ?w1 = "snd (net env ?d w)"
  have ok: "fst (canSendMail env e ?w1)"
    using assms(1) canSendMail_cong [of ?w1 w env e] by simp
  have "errStore (snd (MailHook_Fire_client env m e ?w1)) =
          errStore (markErrAsSent env e (snd (canSendMail env e ?w1)))"
    using ok assms(2)
    by (simp add: MailHook_Fire_client_def MailHook_accepted_def split_def Let_def
        MailHook_Fire_data_errStore markErrAsSent_def saveErrorTime_errStore)
  then show ?thesis
    using assms(2) by (simp add: MailHook_Fire_def MailHook_accepted_def split_def Let_def)
qed


lemma MailHook_Fire_suppressed:
  assumes "\<not> fst (canSendMail env e w)"
    and "respond env (wire w) (SmtpDial (MailHook.host m @ '':'' @ Itoa (MailHook.port m))) = None"
  shows "fst (MailHook_Fire env m e w) = None"
    and "wire (snd (MailHook_Fire env m e w)) =
           wire w @ [SmtpDial (MailHook.host m @ '':'' @ Itoa (MailHook.port m)), SmtpClose]"
proof -
  let ?w1 = "snd (net env (SmtpDial (MailHook.host m @ '':'' @ Itoa (MailHook.port m))) w)"
  have no: "\<not> fst (canSendMail env e ?w1)"
    using assms(1) canSendMail_cong [of ?w1 w env e] by simp
  show "fst (MailHook_Fire env m e w) = None"
    using assms(2) no
    by (simp add: MailHook_Fire_def split_def Let_def MailHook_Fire_client_suppressed)
  show "wire (snd (MailHook_Fire env m e w)) =
           wire w @ [SmtpDial (MailHook.host m @ '':'' @ Itoa (MailHook.port m)), SmtpClose]"
    using assms(2) no
    by (simp add: MailHook_Fire_def split_def Let_def MailHook_Fire_client_suppressed)
qed

lemma canSendMail_ticks_cong:
  "errStore w1 = errStore w2 \<Longrightarrow> ticks w1 = ticks w2 \<Longrightarrow>
     ticks (snd (canSendMail env e w1)) = ticks (snd (canSendMail env e w2))"
  by (simp add: canSendMail_def checkErrorTime_def time_Now_def Let_def split_def
      split: option.splits)

lemma MailAuthHook_Fire_permitted_ticks:
  "fst (canSendMail env e w) \<Longrightarrow>
     ticks (snd (MailAuthHook_Fire env a e w)) = Suc (Suc (ticks (snd (canSendMail env e w))))"
  by (simp add: MailAuthHook_Fire_permitted)

lemma MailHook_Fire_data_ticks:
  "ticks (snd (MailHook_Fire_data env m e w)) = Suc (Suc (ticks w))"
  by (simp add: MailHook_Fire_data_def split_def Let_def)

lemma MailHook_Fire_accepted_ticks:
  assumes "fst (canSendMail env e w)" "MailHook_accepted env m w"
  shows "ticks (snd (MailHook_Fire env m e w)) = Suc (Suc (ticks (snd (canSendMail env e w))))"
proof -
  let ?d = "SmtpDial (MailHook.host m @ '':'' @ Itoa (MailHook.port m))"
  let ?w1 = "snd (net env ?d w)"
  have ok: "fst (canSendMail env e ?w1)"
    using assms(1) canSendMail_cong [of ?w1 w env e] by simp
  have k: "ticks (snd (canSendMail env e ?w1)) = ticks (snd (canSendMail env e w))"
    by (rule canSendMail_ticks_cong) simp_all
  have "ticks (snd (MailHook_Fire_client env m e ?w1)) = Suc (Suc (ticks (snd (canSendMail env e ?w1))))"
    using ok assms(2)
    by (simp add: MailHook_Fire_client_def MailHook_accepted_def split_def Let_def
        MailHook_Fire_data_ticks)
  then show ?thesis
    using assms(2) k by (simp add: MailHook_Fire_def MailHook_accepted_def split_def Let_def)
qed

lemma MailHook_Fire_accepted_errToTime:
  assumes "fst (canSendMail env e w)" "MailHook_accepted env m w"
  shows "errStore (snd (MailHook_Fire env m e w)) =
           errStore (markErrAsSent env e (snd (canSendMail env e w)))"
proof -
  let ?d = "SmtpDial (MailHook.host m @ '':'' @ Itoa (MailHook.port m))"
  let ?w1 = "snd (net env ?d w)"
  have k: "ticks (snd (canSendMail env e ?w1)) = ticks (snd (canSendMail env e w))"
    by (rule canSendMail_ticks_cong) simp_all
  have "errStore (markErrAsSent env e (snd (canSendMail env e ?w1))) =
        errStore (markErrAsSent env e (snd (canSendMail env e w)))"
    using k by (simp add: markErrAsSent_def saveErrorTime_errStore Let_def)
  then show ?thesis
    using MailHook_Fire_accepted_errStore [OF assms] by simp
qed

text \<open>
  C10. The two mail hooks work on the one store \<^verbatim>\<open>errStore\<close>. When a \<^verbatim>\<open>Fire\<close> of either
  hook marks the entry \<open>e\<close> as sent (\<^verbatim>\<open>MailAuthHook.Fire\<close> once the store permits,
  \<^verbatim>\<open>MailHook.Fire\<close> once the store permits and the server has accepted the dial and the
  envelope), the store it leaves is the one it found with two stamps written: under the
  global key the clock reading \<open>k\<close> that follows the readings of \<^verbatim>\<open>canSendMail\<close>, and
  under the message text the reading after it (which is also the global stamp when the
  message text is the global key). These two readings are the stamps \<open>tg\<close> and \<open>tm\<close>. From
  then on, in every world that holds this store, for every entry read within one minute of
  \<open>tg\<close>, and for every entry with the same message text read within ten minutes of \<open>tm\<close>,
  \<^verbatim>\<open>canSendMail\<close> returns false, whichever hook asks: \<^verbatim>\<open>MailAuthHook.Fire\<close> returns nil
  having done nothing else, and \<^verbatim>\<open>MailHook.Fire\<close> leaves the store as it is.
\<close>

theorem hooks_share_errStore:
  assumes "w' = snd (MailAuthHook_Fire env a e w) \<and> fst (canSendMail env e w)
         \<or> w' = snd (MailHook_Fire env m e w) \<and> fst (canSendMail env e w)
             \<and> MailHook_accepted env m w"
  shows "(let k = ticks (snd (canSendMail env e w));
              g = generalErr (errStore w);
              tm = clock env (Suc k);
              tg = (if Message e = g then clock env (Suc k) else clock env k)
          in errToTime (errStore w') =
               (errToTime (errStore w))(g \<mapsto> clock env k, Message e \<mapsto> clock env (Suc k))
             \<and> generalErr (errStore w') = g
             \<and> ticks w' = Suc (Suc k)
             \<and> stamped w' e tg tm
             \<and> (\<forall>w2 e2 a2 m2.
                  errStore w2 = errStore w'
                  \<and> (clock env (ticks w2) < tg + Minute
                     \<or> Message e2 = Message e \<and> clock env (Suc (ticks w2)) < tm + 10 * Minute)
                  \<longrightarrow> \<not> fst (canSendMail env e2 w2)
                      \<and> MailAuthHook_Fire env a2 e2 w2 = (None, snd (canSendMail env e2 w2))
                      \<and> errStore (snd (MailHook_Fire env m2 e2 w2)) = errStore w2))"
proof -
  let ?k = "ticks (snd (canSendMail env e w))"
  let ?g = "generalErr (errStore w)"
  let ?tm = "clock env (Suc ?k)"
  let ?tg = "if Message e = ?g then clock env (Suc ?k) else clock env ?k"
  from assms have p: "fst (canSendMail env e w)" by blast
  from assms consider
    (auth) "w' = snd (MailAuthHook_Fire env a e w)"
    | (plain) "w' = snd (MailHook_Fire env m e w)" "MailHook_accepted env m w"
    by blast
  then have both: "errStore w' = errStore (markErrAsSent env e (snd (canSendMail env e w)))
      \<and> ticks w' = Suc (Suc ?k)"
  proof cases
    case auth
    with p show ?thesis
      by (simp add: MailAuthHook_Fire_permitted)
  next
    case plain
    with p show ?thesis
      by (simp add: MailHook_Fire_accepted_errToTime MailHook_Fire_accepted_ticks)
  qed
  then have store: "errStore w' = errStore (markErrAsSent env e (snd (canSendMail env e w)))"
    and tk: "ticks w' = Suc (Suc ?k)"
    by simp_all
  have m: "errToTime (errStore w') =
      (errToTime (errStore w))(?g \<mapsto> clock env ?k, Message e \<mapsto> clock env (Suc ?k))"
    by (simp add: store markErrAsSent_errToTime)
  have gk: "generalErr (errStore w') = ?g"
    by (simp add: store)
  have st: "stamped w' e ?tg ?tm"
    by (simp add: stamped_def m gk)
  have sup: "\<not> fst (canSendMail env e2 w2)
        \<and> MailAuthHook_Fire env a2 e2 w2 = (None, snd (canSendMail env e2 w2))
        \<and> errStore (snd (MailHook_Fire env m2 e2 w2)) = errStore w2"
    if eq: "errStore w2 = errStore w'"
      and win: "clock env (ticks w2) < ?tg + Minute
        \<or> Message e2 = Message e \<and> clock env (Suc (ticks w2)) < ?tm + 10 * Minute"
    for w2 e2 a2 m2
  proof -
    from st eq have "stamped w2 e ?tg ?tm"
      using stamped_cong [of w2 w' e ?tg ?tm] by simp
    with win have "\<not> fst (canSendMail env e2 w2)"
      using stamped_general_window stamped_message_window by blast
    then show ?thesis
      by (simp add: MailAuthHook_Fire_suppressed MailHook_Fire_suppressed_errStore)
  qed
  have all: "\<forall>w2 e2 a2 m2.
      errStore w2 = errStore w'
      \<and> (clock env (ticks w2) < ?tg + Minute
         \<or> Message e2 = Message e \<and> clock env (Suc (ticks w2)) < ?tm + 10 * Minute)
      \<longrightarrow> \<not> fst (canSendMail env e2 w2)
          \<and> MailAuthHook_Fire env a2 e2 w2 = (None, snd (canSendMail env e2 w2))
          \<and> errStore (snd (MailHook_Fire env m2 e2 w2)) = errStore w2"
    using sup by blast
  show ?thesis
    unfolding Let_def using m gk tk st all by (intro conjI)
qed

text \<open>The definitions that a run on the concrete inputs unfolds.\<close>

lemmas run_defs = canSendMail_def checkErrorTime_def time_Now_def net_def markErrAsSent_def
  saveErrorTime_def Let_def split_def After_def Add_def Minute_def Second_def
  MailHook_Fire_def MailHook_Fire_client_def MailHook_Fire_data_def MailAuthHook_Fire_def
  world_init_def world_sent_def errStore_init_def example_env_def example_entry_def
  example_hook_def example_auth_hook_def refuse_rcpt_def refuse_dial_def Itoa_25

theorem hooks_share_errStore_witness:
  "fst (canSendMail example_env example_entry world_init)
   \<and> MailHook_accepted example_env example_hook world_init
   \<and> errToTime (errStore (snd (MailAuthHook_Fire example_env example_auth_hook example_entry
        world_init))) = [''general'' \<mapsto> 0, ''disk full'' \<mapsto> Second]
   \<and> \<not> fst (canSendMail example_env nan_entry
          (snd (MailAuthHook_Fire example_env example_auth_hook example_entry world_init)))
   \<and> errStore (snd (MailHook_Fire example_env example_hook nan_entry
          (snd (MailAuthHook_Fire example_env example_auth_hook example_entry world_init)))) =
       errStore (snd (MailAuthHook_Fire example_env example_auth_hook example_entry world_init))
   \<and> errToTime (errStore (snd (MailHook_Fire example_env example_hook example_entry world_init)))
       = [''general'' \<mapsto> 0, ''disk full'' \<mapsto> Second]
   \<and> MailAuthHook_Fire example_env example_auth_hook nan_entry
          (snd (MailHook_Fire example_env example_hook example_entry world_init)) =
       (None, snd (canSendMail example_env nan_entry
          (snd (MailHook_Fire example_env example_hook example_entry world_init))))"
proof -
  define wa where "wa = snd (MailAuthHook_Fire example_env example_auth_hook example_entry world_init)"
  define wm where "wm = snd (MailHook_Fire example_env example_hook example_entry world_init)"
  have p: "fst (canSendMail example_env example_entry world_init)"
    by (simp add: run_defs)
  have acc: "MailHook_accepted example_env example_hook world_init"
    by (simp add: MailHook_accepted_def example_env_def)
  have k: "ticks (snd (canSendMail example_env example_entry world_init)) = 0"
    by (simp add: run_defs)
  have g: "generalErr (errStore world_init) = ''general''"
    "errToTime (errStore world_init) = Map.empty"
    "Message example_entry = ''disk full''" "Message nan_entry = ''disk full''"
    by (simp_all add: world_init_def errStore_init_def example_entry_def nan_entry_def)
  have c: "clock example_env 0 = 0" "clock example_env (Suc 0) = Second"
    "clock example_env (Suc (Suc 0)) < 0 + Minute"
    "clock example_env (Suc (Suc (Suc 0))) < Second + 10 * Minute"
    by (simp_all add: example_env_def Minute_def Second_def)
  have a: "errToTime (errStore wa) = [''general'' \<mapsto> 0, ''disk full'' \<mapsto> Second]
      \<and> \<not> fst (canSendMail example_env nan_entry wa)
      \<and> errStore (snd (MailHook_Fire example_env example_hook nan_entry wa)) = errStore wa"
  proof -
    from p have "wa = snd (MailAuthHook_Fire example_env example_auth_hook example_entry world_init)
           \<and> fst (canSendMail example_env example_entry world_init)
         \<or> wa = snd (MailHook_Fire example_env example_hook example_entry world_init)
           \<and> fst (canSendMail example_env example_entry world_init)
           \<and> MailHook_accepted example_env example_hook world_init"
      by (simp add: wa_def)
    from hooks_share_errStore [OF this]
    have m: "errToTime (errStore wa) = [''general'' \<mapsto> 0, ''disk full'' \<mapsto> Second]"
      and t: "ticks wa = Suc (Suc 0)"
      and sup: "\<And>w2 e2 a2 m2. errStore w2 = errStore wa
                \<and> (clock example_env (ticks w2) < 0 + Minute
                  \<or> Message e2 = ''disk full''
                    \<and> clock example_env (Suc (ticks w2)) < Second + 10 * Minute)
                \<Longrightarrow> \<not> fst (canSendMail example_env e2 w2)
                    \<and> MailAuthHook_Fire example_env a2 e2 w2 = (None, snd (canSendMail example_env e2 w2))
                    \<and> errStore (snd (MailHook_Fire example_env m2 e2 w2)) = errStore w2"
      by (simp_all add: Let_def k g c)
    from sup [of wa nan_entry example_auth_hook example_hook] t c m
    show ?thesis by simp
  qed
  have b: "errToTime (errStore wm) = [''general'' \<mapsto> 0, ''disk full'' \<mapsto> Second]
      \<and> MailAuthHook_Fire example_env example_auth_hook nan_entry wm =
         (None, snd (canSendMail example_env nan_entry wm))"
  proof -
    from p acc have "wm = snd (MailAuthHook_Fire example_env example_auth_hook example_entry world_init)
           \<and> fst (canSendMail example_env example_entry world_init)
         \<or> wm = snd (MailHook_Fire example_env example_hook example_entry world_init)
           \<and> fst (canSendMail example_env example_entry world_init)
           \<and> MailHook_accepted example_env example_hook world_init"
      by (simp add: wm_def)
    from hooks_share_errStore [OF this]
    have m: "errToTime (errStore wm) = [''general'' \<mapsto> 0, ''disk full'' \<mapsto> Second]"
      and t: "ticks wm = Suc (Suc 0)"
      and sup: "\<And>w2 e2 a2 m2. errStore w2 = errStore wm
                \<and> (clock example_env (ticks w2) < 0 + Minute
                  \<or> Message e2 = ''disk full''
                    \<and> clock example_env (Suc (ticks w2)) < Second + 10 * Minute)
                \<Longrightarrow> \<not> fst (canSendMail example_env e2 w2)
                    \<and> MailAuthHook_Fire example_env a2 e2 w2 = (None, snd (canSendMail example_env e2 w2))
                    \<and> errStore (snd (MailHook_Fire example_env m2 e2 w2)) = errStore w2"
      by (simp_all add: Let_def k g c)
    have "errStore wm = errStore wm
        \<and> (clock example_env (ticks wm) < 0 + Minute
          \<or> Message nan_entry = ''disk full''
            \<and> clock example_env (Suc (ticks wm)) < Second + 10 * Minute)"
      using t c g by simp
    from sup [OF this, of example_auth_hook example_hook] m
    show ?thesis by simp
  qed
  from a b p acc show ?thesis
    by (simp add: wa_def wm_def)
qed

section \<open>Where \<^verbatim>\<open>MailHook.Fire\<close> asks and marks\<close>

text \<open>
  \<^verbatim>\<open>MailAuthHook.Fire\<close> marks the entry before its one network call, so the stamps are
  set whatever the server answers. \<^verbatim>\<open>MailHook.Fire\<close> marks it only after the dial and
  the three envelope commands have been accepted: when any of them is refused the store is
  left as it was.
\<close>

lemma MailAuthHook_Fire_marks_first:
  "fst (canSendMail env e w) \<Longrightarrow>
     errStore (snd (MailAuthHook_Fire env a e w)) =
       errStore (markErrAsSent env e (snd (canSendMail env e w)))"
  by (simp add: MailAuthHook_Fire_permitted)

lemma MailHook_Fire_unaccepted_errStore:
  assumes "\<not> MailHook_accepted env m w"
  shows "errStore (snd (MailHook_Fire env m e w)) = errStore w"
  using assms
  by (auto simp: MailHook_Fire_def MailHook_Fire_client_def MailHook_accepted_def split_def Let_def
      split: option.splits)

text \<open>
  C1 (the code departs from the claim). The store is empty, so the alert is permitted; the
  server accepts the connection and \<^verbatim>\<open>MAIL\<close> and refuses \<^verbatim>\<open>RCPT\<close>. \<^verbatim>\<open>MailHook.Fire\<close>
  returns the server's error after the calls dial, \<^verbatim>\<open>MAIL\<close>, \<^verbatim>\<open>RCPT\<close> and close, the store
  is still the empty initial one (no key was stamped), and \<^verbatim>\<open>canSendMail\<close> for the same
  entry right afterwards returns true: the second attempt is not suppressed.
\<close>

theorem MailHook_Fire_rcpt_refused:
  "fst (canSendMail (example_env\<lparr>respond := refuse_rcpt\<rparr>) example_entry world_init)
   \<and> fst (MailHook_Fire (example_env\<lparr>respond := refuse_rcpt\<rparr>) example_hook example_entry world_init)
       = Some ''550 mailbox unavailable''
   \<and> wire (snd (MailHook_Fire (example_env\<lparr>respond := refuse_rcpt\<rparr>) example_hook example_entry
        world_init))
       = [SmtpDial ''localhost:25'', SmtpMail ''alerts@example.org'', SmtpRcpt ''ops@example.org'',
          SmtpClose]
   \<and> errStore (snd (MailHook_Fire (example_env\<lparr>respond := refuse_rcpt\<rparr>) example_hook example_entry
        world_init)) = errStore_init
   \<and> fst (canSendMail (example_env\<lparr>respond := refuse_rcpt\<rparr>) example_entry
        (snd (MailHook_Fire (example_env\<lparr>respond := refuse_rcpt\<rparr>) example_hook example_entry
           world_init)))"
  by (simp add: run_defs)

text \<open>
  C2 (the code departs from the claim). An alert with the same message was sent two
  seconds ago, so \<^verbatim>\<open>canSendMail\<close> returns false; \<^verbatim>\<open>MailHook.Fire\<close> has nevertheless
  dialled the server before it asks the store. It returns nil with the dial and the close
  of the connection on the wire, and no envelope command.
\<close>

theorem MailHook_Fire_dials_when_suppressed:
  "\<not> fst (canSendMail example_env example_entry world_sent)
   \<and> MailHook_Fire example_env example_hook example_entry world_sent =
       (None, world_sent\<lparr>ticks := 3, wire := [SmtpDial ''localhost:25'', SmtpClose]\<rparr>)"
  by (simp add: run_defs)

text \<open>
  C8 (the code departs from the claim). The entry is one for which \<^verbatim>\<open>canSendMail\<close>
  returns false, and the server cannot be reached. \<^verbatim>\<open>MailHook.Fire\<close> dials first and
  returns the error of the dial, not nil; the store is unchanged.
\<close>

theorem MailHook_Fire_suppressed_dial_error:
  "\<not> fst (canSendMail (example_env\<lparr>respond := refuse_dial\<rparr>) example_entry world_sent)
   \<and> MailHook_Fire (example_env\<lparr>respond := refuse_dial\<rparr>) example_hook example_entry world_sent =
       (Some ''connection refused'', world_sent\<lparr>wire := [SmtpDial ''localhost:25'']\<rparr>)"
  by (simp add: run_defs)

section \<open>A failed setup\<close>

lemma UsefulSetupLogrus_hooks_error:
  assumes "fst (fst (UsefulSetupLogrus_hooks env logger format appname hst prt sndr rcpt w)) = Some e"
  shows "snd (fst (UsefulSetupLogrus_hooks env logger format appname hst prt sndr rcpt w)) =
           logger\<lparr>Hooks := LevelHooks_Add (Hooks logger)
                              (StderrHookH \<lparr>textFormater = \<lparr>FullTimestamp = False\<rparr>\<rparr>)\<rparr>"
  using assms
  by (simp add: UsefulSetupLogrus_hooks_def NewStderrHook_def split_def Let_def split: sum.splits)

text \<open>
  C4, as amended. When \<^verbatim>\<open>UsefulSetupLogrus\<close> returns an error, the logger's formatter is
  unchanged and no mail hook has been added, but its output has been set to stdout (the
  first statement of the function). When the failure is a malformed endpoint, port or
  severity name, hooks and level are unchanged; when it is \<^verbatim>\<open>NewMailHook\<close> that fails
  (unreachable endpoint, invalid address), the level has been set to the parsed one and the
  stderr hook has been added.
\<close>

theorem UsefulSetupLogrus_error_state:
  assumes "fst (fst (UsefulSetupLogrus env logger mailHostPort format level appname sndr rcpt w)) = Some e"
  shows "Out (snd (fst (UsefulSetupLogrus env logger mailHostPort format level appname sndr rcpt w)))
           = Stdout
    \<and> Formatter (snd (fst (UsefulSetupLogrus env logger mailHostPort format level appname sndr rcpt w)))
           = Formatter logger
    \<and> (case parsed_args env mailHostPort level of
         None \<Rightarrow>
           Hooks (snd (fst (UsefulSetupLogrus env logger mailHostPort format level appname sndr rcpt w)))
             = Hooks logger
           \<and> Logger.Level (snd (fst (UsefulSetupLogrus env logger mailHostPort format level appname
                sndr rcpt w))) = Logger.Level logger
       | Some (hst, prt, logLevel) \<Rightarrow>
           Hooks (snd (fst (UsefulSetupLogrus env logger mailHostPort format level appname sndr rcpt w)))
             = LevelHooks_Add (Hooks logger) (StderrHookH \<lparr>textFormater = \<lparr>FullTimestamp = False\<rparr>\<rparr>)
           \<and> Logger.Level (snd (fst (UsefulSetupLogrus env logger mailHostPort format level appname
                sndr rcpt w))) = logLevel
           \<and> (\<exists>e'. fst (NewMailHook env appname hst prt sndr rcpt w) = Inl e'))"
proof (cases "parsed_args env mailHostPort level")
  case None
  then have "snd (fst (UsefulSetupLogrus env logger mailHostPort format level appname sndr rcpt w))
      = logger\<lparr>Out := Stdout\<rparr>"
    by (simp add: UsefulSetupLogrus_def parsed_args_def Let_def split: sum.splits prod.splits)
  with None show ?thesis by simp
next
  case (Some a)
  obtain hst prt logLevel where a: "a = (hst, prt, logLevel)"
    by (cases a) auto
  from Some a have run: "UsefulSetupLogrus env logger mailHostPort format level appname sndr rcpt w =
      UsefulSetupLogrus_hooks env (logger\<lparr>Out := Stdout, Logger.Level := logLevel\<rparr>)
        format appname hst prt sndr rcpt w"
    by (auto simp: UsefulSetupLogrus_def parsed_args_def Let_def split: sum.splits prod.splits)
  from assms run have err: "fst (fst (UsefulSetupLogrus_hooks env
      (logger\<lparr>Out := Stdout, Logger.Level := logLevel\<rparr>) format appname hst prt sndr rcpt w)) = Some e"
    by simp
  have mail: "\<exists>e'. fst (NewMailHook env appname hst prt sndr rcpt w) = Inl e'"
    using err
    by (auto simp: UsefulSetupLogrus_hooks_def NewStderrHook_def split_def Let_def split: sum.splits)
  show ?thesis
    using Some a mail by (simp add: run UsefulSetupLogrus_hooks_error [OF err])
qed

lemmas setup_defs = UsefulSetupLogrus_def UsefulSetupLogrus_hooks_def UsefulSetupLogrus_format_def
  NewStderrHook_def NewMailHook_def checkMailHookParams_def LevelHooks_Add_def
  StderrHook_Levels_def MailHook_Levels_def parsed_args_def logrus_New_def

theorem UsefulSetupLogrus_error_state_witness:
  "fst (fst (UsefulSetupLogrus example_env logrus_New ''localhost:25'' ''json'' ''debug'' ''svc''
       ''alerts@example.org'' ''not an address'' world_init)) = Some ''mail: missing @ or angle-addr''
   \<and> Formatter (snd (fst (UsefulSetupLogrus example_env logrus_New ''localhost:25'' ''json'' ''debug''
       ''svc'' ''alerts@example.org'' ''not an address'' world_init))) = Formatter logrus_New
   \<and> Logger.Level (snd (fst (UsefulSetupLogrus example_env logrus_New ''localhost:25'' ''json''
       ''debug'' ''svc'' ''alerts@example.org'' ''not an address'' world_init))) = DebugLevel"
proof -
  have e: "fst (fst (UsefulSetupLogrus example_env logrus_New ''localhost:25'' ''json'' ''debug'' ''svc''
       ''alerts@example.org'' ''not an address'' world_init)) = Some ''mail: missing @ or angle-addr''"
    by (simp add: setup_defs run_defs)
  have p: "parsed_args example_env ''localhost:25'' ''debug'' = Some (''localhost'', 25, DebugLevel)"
    by (simp add: parsed_args_def example_env_def)
  from UsefulSetupLogrus_error_state [OF e] e p show ?thesis by simp
qed

text \<open>
  C4 as stated fails. A logger fresh from \<^verbatim>\<open>logrus.New()\<close> writes to stderr at level info
  with no hooks. With the endpoint "localhost" (no port) the setup returns an error and
  the logger writes to stdout; with an endpoint that refuses the connection the setup
  returns an error, the level is debug and the stderr hook is registered.
\<close>

theorem UsefulSetupLogrus_partial_setup:
  "fst (fst (UsefulSetupLogrus example_env logrus_New ''localhost'' ''json'' ''debug'' ''svc''
       ''alerts@example.org'' ''ops@example.org'' world_init)) = Some ''missing port in address''
   \<and> Out (snd (fst (UsefulSetupLogrus example_env logrus_New ''localhost'' ''json'' ''debug'' ''svc''
       ''alerts@example.org'' ''ops@example.org'' world_init))) = Stdout
   \<and> Out logrus_New = Stderr
   \<and> fst (fst (UsefulSetupLogrus (example_env\<lparr>respond := refuse_dial\<rparr>) logrus_New ''localhost:25''
       ''json'' ''debug'' ''svc'' ''alerts@example.org'' ''ops@example.org'' world_init))
       = Some ''connection refused''
   \<and> Logger.Level (snd (fst (UsefulSetupLogrus (example_env\<lparr>respond := refuse_dial\<rparr>) logrus_New
       ''localhost:25'' ''json'' ''debug'' ''svc'' ''alerts@example.org'' ''ops@example.org''
       world_init))) = DebugLevel
   \<and> Logger.Level logrus_New = InfoLevel
   \<and> Hooks (snd (fst (UsefulSetupLogrus (example_env\<lparr>respond := refuse_dial\<rparr>) logrus_New
       ''localhost:25'' ''json'' ''debug'' ''svc'' ''alerts@example.org'' ''ops@example.org''
       world_init))) ErrorLevel = [StderrHookH \<lparr>textFormater = \<lparr>FullTimestamp = False\<rparr>\<rparr>]
   \<and> Hooks logrus_New ErrorLevel = []"
  by (simp add: setup_defs run_defs)

section \<open>The composed message\<close>

lemma sublistI: "ys = ps @ xs @ ss \<Longrightarrow> sublist xs ys"
  by (auto simp: sublist_def)

lemma createMessage_body_marshalled:
  "MarshalIndent env (Data e) [] [CHR 0x09] = Inr j \<Longrightarrow>
     createMessage_body env e =
       ''TIME: '' @ Time_Format env (Time e) ''2006-01-02 15:04:05-0700'' @ ''\<newline>'' @
       ''MESSAGE: '' @ Message e @ ''\<newline>\<newline>'' @ ''DATA: '' @ j @ ''\<newline>\<newline>'' @
       ''STACKTRACE: \<newline>'' @ debug_Stack env"
  by (simp add: createMessage_body_def createMessage_data_def)

lemma createMessage_body_unmarshalled:
  "MarshalIndent env (Data e) [] [CHR 0x09] = Inl err \<Longrightarrow>
     createMessage_body env e =
       ''TIME: '' @ Time_Format env (Time e) ''2006-01-02 15:04:05-0700'' @ ''\<newline>'' @
       ''MESSAGE: '' @ Message e @ ''\<newline>\<newline>'' @ ''DATA: '' @ ''\<newline>\<newline>'' @
       ''STACKTRACE: \<newline>'' @ debug_Stack env"
  by (simp add: createMessage_body_def createMessage_data_def)

text \<open>
  C6, as amended. For every entry and application name the message is "Subject: ", the
  subject \<open>appname - level name\<close>, an empty line and the body. The body starts with "TIME: "
  and the entry's time formatted by the layout \<^verbatim>\<open>2006-01-02 15:04:05-0700\<close> (year-month-day
  hour:minute:second and zone offset), has the message text after "MESSAGE: ", ends with
  "STACKTRACE: " and the stack trace whatever the severity, and has after "DATA: " the
  rendering by \<^verbatim>\<open>json.MarshalIndent\<close> of the fields (indent: one tab) when that call
  succeeds; when it returns an error the DATA section is empty. In particular, for the
  fields user = "a", count = 3 (rendered as Go renders them), application "svc" and level
  error, the subject is "svc - error" and the body contains \<^verbatim>\<open>TIME:\<close>, \<^verbatim>\<open>MESSAGE:\<close>,
  \<^verbatim>\<open>"user": "a"\<close> and \<^verbatim>\<open>"count": 3\<close>.
\<close>

theorem createMessage_form:
  \<open>createMessage env e appname =
      ''Subject: '' @ appname @ '' - '' @ Level_String (Entry.Level e) @
      [CHR 0x0D, CHR 0x0A, CHR 0x0D, CHR 0x0A] @ createMessage_body env e
   \<and> prefix (''TIME: '' @ Time_Format env (Time e) ''2006-01-02 15:04:05-0700'' @ ''\<newline>'')
        (createMessage_body env e)
   \<and> sublist (''MESSAGE: '' @ Message e @ ''\<newline>\<newline>'') (createMessage_body env e)
   \<and> suffix (''STACKTRACE: \<newline>'' @ debug_Stack env) (createMessage_body env e)
   \<and> (\<forall>j. MarshalIndent env (Data e) [] [CHR 0x09] = Inr j \<longrightarrow>
          sublist (''DATA: '' @ j @ ''\<newline>\<newline>'') (createMessage_body env e))
   \<and> (\<forall>err. MarshalIndent env (Data e) [] [CHR 0x09] = Inl err \<longrightarrow>
          sublist (''DATA: \<newline>\<newline>STACKTRACE: '') (createMessage_body env e))
   \<and> (Data e = example_fields \<and> Entry.Level e = ErrorLevel
        \<and> MarshalIndent env example_fields [] [CHR 0x09] = Inr example_json \<longrightarrow>
          createMessage_subject e ''svc'' = ''svc - error''
          \<and> sublist ''TIME:'' (createMessage_body env e)
          \<and> sublist ''MESSAGE:'' (createMessage_body env e)
          \<and> sublist ''"user": "a"'' (createMessage_body env e)
          \<and> sublist ''"count": 3'' (createMessage_body env e))\<close>
proof -
  let ?t = "Time_Format env (Time e) ''2006-01-02 15:04:05-0700''"
  let ?b = "createMessage_body env e"
  have whole: "createMessage env e appname =
      ''Subject: '' @ appname @ '' - '' @ Level_String (Entry.Level e) @
      [CHR 0x0D, CHR 0x0A, CHR 0x0D, CHR 0x0A] @ ?b"
    by (simp add: createMessage_def createMessage_subject_def)
  have time: "prefix (''TIME: '' @ ?t @ ''\<newline>'') ?b"
    by (simp add: createMessage_body_def)
  have msg: "sublist (''MESSAGE: '' @ Message e @ ''\<newline>\<newline>'') ?b"
    by (rule sublistI [where ps = "''TIME: '' @ ?t @ ''\<newline>''"
          and ss = "''DATA: '' @ createMessage_data env e @ ''\<newline>\<newline>'' @
                    ''STACKTRACE: \<newline>'' @ debug_Stack env"])
       (simp add: createMessage_body_def)
  have stack: "suffix (''STACKTRACE: \<newline>'' @ debug_Stack env) ?b"
    by (simp add: createMessage_body_def suffix_def)
  have data: "sublist (''DATA: '' @ j @ ''\<newline>\<newline>'') ?b"
    if "MarshalIndent env (Data e) [] [CHR 0x09] = Inr j" for j
    by (rule sublistI [where ps = "''TIME: '' @ ?t @ ''\<newline>'' @ ''MESSAGE: '' @ Message e @
          ''\<newline>\<newline>''" and ss = "''STACKTRACE: \<newline>'' @ debug_Stack env"])
       (simp add: createMessage_body_marshalled [OF that])
  have nodata: "sublist (''DATA: \<newline>\<newline>STACKTRACE: '') ?b"
    if "MarshalIndent env (Data e) [] [CHR 0x09] = Inl err" for err
    by (rule sublistI [where ps = "''TIME: '' @ ?t @ ''\<newline>'' @ ''MESSAGE: '' @ Message e @
          ''\<newline>\<newline>''" and ss = "''\<newline>'' @ debug_Stack env"])
       (simp add: createMessage_body_unmarshalled [OF that])
  have example: \<open>createMessage_subject e ''svc'' = ''svc - error''
          \<and> sublist ''TIME:'' ?b \<and> sublist ''MESSAGE:'' ?b
          \<and> sublist ''"user": "a"'' ?b \<and> sublist ''"count": 3'' ?b\<close>
    if d: "Data e = example_fields" and l: "Entry.Level e = ErrorLevel"
      and m: "MarshalIndent env example_fields [] [CHR 0x09] = Inr example_json"
  proof -
    from d m have "MarshalIndent env (Data e) [] [CHR 0x09] = Inr example_json"
      by simp
    note b = createMessage_body_marshalled [OF this]
    have 1: "createMessage_subject e ''svc'' = ''svc - error''"
      by (simp add: createMessage_subject_def l)
    have 2: "sublist ''TIME:'' ?b"
      by (rule sublistI [where ps = "[]" and ss = "'' '' @ ?t @ ''\<newline>'' @ ''MESSAGE: '' @
            Message e @ ''\<newline>\<newline>'' @ ''DATA: '' @ example_json @ ''\<newline>\<newline>'' @
            ''STACKTRACE: \<newline>'' @ debug_Stack env"])
         (simp add: b)
    have 3: "sublist ''MESSAGE:'' ?b"
      by (rule sublistI [where ps = "''TIME: '' @ ?t @ ''\<newline>''" and ss = "'' '' @
            Message e @ ''\<newline>\<newline>'' @ ''DATA: '' @ example_json @ ''\<newline>\<newline>'' @
            ''STACKTRACE: \<newline>'' @ debug_Stack env"])
         (simp add: b)
    have 4: \<open>sublist ''"user": "a"'' ?b\<close>
      by (rule sublistI [where ps = \<open>''TIME: '' @ ?t @ ''\<newline>'' @ ''MESSAGE: '' @ Message e @
            ''\<newline>\<newline>'' @ ''DATA: '' @ ''{'' @ [CHR 0x0A, CHR 0x09] @ ''"count": 3,'' @
            [CHR 0x0A, CHR 0x09]\<close>
            and ss = "[CHR 0x0A] @ ''}'' @ ''\<newline>\<newline>'' @ ''STACKTRACE: \<newline>'' @
              debug_Stack env"])
         (simp add: b example_json_def)
    have 5: \<open>sublist ''"count": 3'' ?b\<close>
      by (rule sublistI [where ps = \<open>''TIME: '' @ ?t @ ''\<newline>'' @ ''MESSAGE: '' @ Message e @
            ''\<newline>\<newline>'' @ ''DATA: '' @ ''{'' @ [CHR 0x0A, CHR 0x09]\<close>
            and ss = \<open>'','' @ [CHR 0x0A, CHR 0x09] @ ''"user": "a"'' @ [CHR 0x0A] @ ''}'' @
              ''\<newline>\<newline>'' @ ''STACKTRACE: \<newline>'' @ debug_Stack env\<close>])
         (simp add: b example_json_def)
    from 1 2 3 4 5 show ?thesis by simp
  qed
  from whole time msg stack data nodata example show ?thesis
    by blast
qed

theorem createMessage_form_witness:
  \<open>Data example_entry = example_fields \<and> Entry.Level example_entry = ErrorLevel
   \<and> MarshalIndent example_env example_fields [] [CHR 0x09] = Inr example_json
   \<and> createMessage_subject example_entry ''svc'' = ''svc - error''
   \<and> sublist ''"user": "a"'' (createMessage_body example_env example_entry)
   \<and> sublist ''"count": 3'' (createMessage_body example_env example_entry)
   \<and> sublist (''DATA: \<newline>\<newline>STACKTRACE: '') (createMessage_body example_env nan_entry)\<close>
proof -
  have h: "Data example_entry = example_fields \<and> Entry.Level example_entry = ErrorLevel
      \<and> MarshalIndent example_env example_fields [] [CHR 0x09] = Inr example_json"
    by (simp add: example_entry_def example_env_def example_fields_def)
  have n: "MarshalIndent example_env (Data nan_entry) [] [CHR 0x09] = Inl ''json: unsupported value: NaN''"
    by (simp add: nan_entry_def example_env_def)
  from createMessage_form [of example_env example_entry "''svc''"]
    createMessage_form [of example_env nan_entry "''svc''"] h n
  show ?thesis by blast
qed

text \<open>
  C6 as stated fails. The entry's one field holds a NaN, which \<^verbatim>\<open>encoding/json\<close> refuses;
  \<^verbatim>\<open>createMessage\<close> drops the error, and the message has nothing between "DATA: " and the
  empty line before "STACKTRACE:": no rendering of the field mapping.
\<close>

theorem createMessage_without_rendering:
  "MarshalIndent example_env (Data nan_entry) [] [CHR 0x09] = Inl ''json: unsupported value: NaN''
   \<and> createMessage example_env nan_entry ''svc'' =
       ''Subject: svc - error'' @ [CHR 0x0D, CHR 0x0A, CHR 0x0D, CHR 0x0A] @
       ''TIME: 1970-01-01 00:00:00+0000\<newline>MESSAGE: disk full\<newline>\<newline>DATA: \<newline>\<newline>STACKTRACE: \<newline>goroutine 1 [running]:''"
  by (simp add: createMessage_def createMessage_subject_def createMessage_body_def
      createMessage_data_def nan_entry_def example_env_def)

end
